theory Spec2Isabelle
  imports Complex_Main "HOL-Library.AList" "HOL-Library.Sublist" "HOL-Library.Product_Lexorder"
    "HOL-Library.Extended_Nat"
begin

section \<open>Python strings\<close>

text \<open>
  A Python \<open>str\<close> is modelled as a \<open>string\<close> (a list of \<open>char\<close>). The tree text, the
  marker table and the VCF alleles of this program are taken as ASCII text, and the
  string operations below are the ASCII behaviour of the Python methods of the same name.
\<close>

definition TAB :: char where
  "TAB = CHR 0x09"

definition NL :: char where
  "NL = CHR 0x0A"

text \<open>\<open>str.isspace\<close> on ASCII: tab, line feed, vertical tab, form feed, carriage return,
  the four separators 0x1C..0x1F and the space.\<close>

definition py_isspace :: "char \<Rightarrow> bool" where
  "py_isspace c \<longleftrightarrow>
     c \<in> set [CHR 0x09, CHR 0x0A, CHR 0x0B, CHR 0x0C, CHR 0x0D,
                CHR 0x1C, CHR 0x1D, CHR 0x1E, CHR 0x1F, CHR 0x20]"

definition lstrip :: "string \<Rightarrow> string" where
  "lstrip s = dropWhile py_isspace s"

definition rstrip :: "string \<Rightarrow> string" where
  "rstrip s = rev (dropWhile py_isspace (rev s))"

text \<open>\<open>s.strip()\<close>\<close>

definition strip :: "string \<Rightarrow> string" where
  "strip s = rstrip (lstrip s)"

text \<open>\<open>s.rstrip(chars)\<close>: drops trailing characters that occur in \<open>chars\<close>.\<close>

definition rstrip_chars :: "string \<Rightarrow> string \<Rightarrow> string" where
  "rstrip_chars chars s = rev (dropWhile (\<lambda>c. c \<in> set chars) (rev s))"

text \<open>\<open>s.split(sep)\<close> for a one-character separator: every occurrence splits, empty
  pieces are kept, and the empty string gives one empty piece.\<close>

fun split_on :: "char \<Rightarrow> string \<Rightarrow> string list" where
  "split_on sep [] = [[]]"
| "split_on sep (c # cs) =
     (if c = sep then [] # split_on sep cs
      else (case split_on sep cs of
              [] \<Rightarrow> [[c]]
            | w # ws \<Rightarrow> (c # w) # ws))"

text \<open>\<open>s.split('->')\<close>: the two-character separator, scanned from the left.\<close>

fun split_arrow :: "string \<Rightarrow> string list" where
  "split_arrow [] = [[]]"
| "split_arrow [c] = [[c]]"
| "split_arrow (a # b # cs) =
     (if a = CHR ''-'' \<and> b = CHR ''>'' then [] # split_arrow cs
      else (case split_arrow (b # cs) of
              [] \<Rightarrow> [[a]]
            | w # ws \<Rightarrow> (a # w) # ws))"

text \<open>\<open>sub in s\<close> on strings: \<open>sub\<close> occurs as a contiguous piece of \<open>s\<close>.\<close>

fun contains :: "string \<Rightarrow> string \<Rightarrow> bool" where
  "contains sub [] = (sub = [])"
| "contains sub (c # cs) = (prefix sub (c # cs) \<or> contains sub cs)"

definition ascii_lowercase :: string where
  "ascii_lowercase = ''abcdefghijklmnopqrstuvwxyz''"

definition ascii_uppercase :: string where
  "ascii_uppercase = ''ABCDEFGHIJKLMNOPQRSTUVWXYZ''"

definition upper_char :: "char \<Rightarrow> char" where
  "upper_char c = (case map_of (zip ascii_lowercase ascii_uppercase) c of
                     Some u \<Rightarrow> u | None \<Rightarrow> c)"

definition lower_char :: "char \<Rightarrow> char" where
  "lower_char c = (case map_of (zip ascii_uppercase ascii_lowercase) c of
                     Some l \<Rightarrow> l | None \<Rightarrow> c)"

text \<open>\<open>s.upper()\<close> and \<open>s.lower()\<close>\<close>

definition upper :: "string \<Rightarrow> string" where
  "upper s = map upper_char s"

definition lower :: "string \<Rightarrow> string" where
  "lower s = map lower_char s"

definition isdigit_char :: "char \<Rightarrow> bool" where
  "isdigit_char c \<longleftrightarrow> c \<in> set ''0123456789''"

text \<open>\<open>s.isdigit()\<close>: false on the empty string.\<close>

definition isdigit :: "string \<Rightarrow> bool" where
  "isdigit s \<longleftrightarrow> s \<noteq> [] \<and> list_all isdigit_char s"

section \<open>Dictionaries\<close>

text \<open>
  A Python \<open>dict\<close> is an association list in insertion order: \<open>d[k] = v\<close> replaces the
  value of a key that is present, in place, and appends a new key at the end
  (\<open>AList.update\<close>); \<open>k in d\<close> and \<open>d[k]\<close> read it with \<open>map_of\<close>.
\<close>

type_synonym ('k, 'v) dict = "('k \<times> 'v) list"

definition dict_set :: "'k \<Rightarrow> 'v \<Rightarrow> ('k, 'v) dict \<Rightarrow> ('k, 'v) dict" where
  "dict_set k v d = AList.update k v d"

definition dict_in :: "'k \<Rightarrow> ('k, 'v) dict \<Rightarrow> bool" where
  "dict_in k d \<longleftrightarrow> map_of d k \<noteq> None"

text \<open>\<open>d[k].append(v)\<close> on a \<open>defaultdict(list)\<close>: a missing key is created, at the end,
  with the empty list.\<close>

definition dict_append :: "'k \<Rightarrow> 'v \<Rightarrow> ('k, 'v list) dict \<Rightarrow> ('k, 'v list) dict" where
  "dict_append k v d =
     (case map_of d k of
        None \<Rightarrow> d @ [(k, [v])]
      | Some vs \<Rightarrow> dict_set k (vs @ [v]) d)"

section \<open>Exceptions\<close>

text \<open>
  The exceptions a claim speaks of. \<open>KeyError\<close> is what indexing a dictionary at an
  absent key raises. \<open>StructuralError\<close> is the error the specification names for a
  malformed tree; no statement of the source raises it.
\<close>

datatype py_exception = KeyError | StructuralError

section \<open>Genotype status\<close>

text \<open>class \<open>GenotypeStatus\<close>: five string constants used as an enumeration.\<close>

datatype GenotypeStatus = DERIVED | ANCESTRAL | HETEROZYGOUS | MISSING | MISMATCH

definition is_het_gt :: "string \<Rightarrow> bool" where
  "is_het_gt gt \<longleftrightarrow> gt \<in> set [''0/1'', ''0|1'', ''1/0'', ''1|0'']"

definition is_hom_alt_gt :: "string \<Rightarrow> bool" where
  "is_hom_alt_gt gt \<longleftrightarrow> gt \<in> set [''1/1'', ''1|1'', ''1'']"

definition is_hom_ref_gt :: "string \<Rightarrow> bool" where
  "is_hom_ref_gt gt \<longleftrightarrow> gt \<in> set [''0/0'', ''0|0'', ''0'']"

text \<open>The tail of \<open>check_genotype\<close> ("When no explicit info, infer from VCF"), which a
  matched orientation with an unrecognised call also falls through to.\<close>

definition infer_from_vcf :: "string \<Rightarrow> GenotypeStatus" where
  "infer_from_vcf gt =
     (if is_hom_alt_gt gt then DERIVED
      else if is_het_gt gt then HETEROZYGOUS
      else if is_hom_ref_gt gt then ANCESTRAL
      else MISMATCH)"

text \<open>\<open>HaplogroupClassifier.check_genotype\<close> of \<open>YHapLZ.py\<close>.\<close>

definition check_genotype ::
  "string \<Rightarrow> string \<Rightarrow> string \<Rightarrow> string \<Rightarrow> string \<Rightarrow> GenotypeStatus" where
  "check_genotype gt vcf_ref vcf_alt exp_ref exp_alt =
     (if gt \<in> set [''./.'', ''.'', ''''] then MISSING
      else
        let vcf_ref' = upper vcf_ref;
            vcf_alt' = (if vcf_alt \<noteq> ''.'' then upper vcf_alt else '''')
        in
          if exp_ref \<noteq> [] \<and> exp_alt \<noteq> [] then
            if vcf_ref' = upper exp_ref \<and> vcf_alt' = upper exp_alt then
              if is_hom_alt_gt gt then DERIVED
              else if is_het_gt gt then HETEROZYGOUS
              else if is_hom_ref_gt gt then ANCESTRAL
              else infer_from_vcf gt
            else if vcf_ref' = upper exp_alt \<and> vcf_alt' = upper exp_ref then
              if is_hom_ref_gt gt then DERIVED
              else if is_het_gt gt then HETEROZYGOUS
              else if is_hom_alt_gt gt then ANCESTRAL
              else infer_from_vcf gt
            else infer_from_vcf gt
          else infer_from_vcf gt)"

text \<open>\<open>HaplogroupClassifier.check_genotype\<close> of \<open>proYHapLZ.py\<close>, the base classifier
  from which \<open>YHapLZ.py\<close> is generated.\<close>

definition pro_check_genotype ::
  "string \<Rightarrow> string \<Rightarrow> string \<Rightarrow> string \<Rightarrow> string \<Rightarrow> GenotypeStatus" where
  "pro_check_genotype gt vcf_ref vcf_alt exp_ref exp_alt =
     (if gt \<in> set [''./.'', ''.'', ''''] then MISSING
      else
        let vcf_ref' = upper vcf_ref;
            vcf_alt' = (if vcf_alt \<noteq> ''.'' then upper vcf_alt else '''')
        in
          if exp_ref \<noteq> [] \<and> exp_alt \<noteq> [] then
            if vcf_ref' = upper exp_ref \<and> vcf_alt' = upper exp_alt then
              if is_hom_alt_gt gt then DERIVED
              else if is_het_gt gt then HETEROZYGOUS
              else if is_hom_ref_gt gt then ANCESTRAL
              else infer_from_vcf gt
            else if vcf_ref' = upper exp_alt \<and> vcf_alt' = upper exp_ref then
              if is_hom_ref_gt gt then DERIVED
              else if is_het_gt gt then HETEROZYGOUS
              else if is_hom_alt_gt gt then ANCESTRAL
              else infer_from_vcf gt
            else infer_from_vcf gt
          else infer_from_vcf gt)"

text \<open>\<open>is_derived\<close>: Python's \<open>True\<close>/\<open>False\<close>/\<open>None\<close> as \<open>bool option\<close>. The status may
  itself be \<open>None\<close> (the result of \<open>dict.get\<close>), which takes the last branch.\<close>

definition is_derived :: "string \<Rightarrow> GenotypeStatus option \<Rightarrow> bool option" where
  "is_derived het_mode status =
     (if status = Some DERIVED then Some True
      else if status = Some ANCESTRAL then Some False
      else if status = Some HETEROZYGOUS then
        (if het_mode = ''strict'' then None else Some True)
      else None)"

text \<open>Truthiness of that result in \<open>if self.is_derived(status)\<close>.\<close>

definition truthy :: "bool option \<Rightarrow> bool" where
  "truthy b \<longleftrightarrow> b = Some True"

section \<open>Tree model\<close>

text \<open>
  \<open>get_ancestors\<close>: the \<open>while\<close> loop on \<open>current\<close>, \<open>seen\<close> and \<open>ancestors\<close>. Each turn
  moves one key of the parent map into \<open>seen\<close>, which is the measure of termination.
\<close>

function ancestors_loop ::
  "(string, string) dict \<Rightarrow> string \<Rightarrow> string set \<Rightarrow> string list \<Rightarrow> string list" where
  "ancestors_loop phylo_tree current seen ancestors =
     (case map_of phylo_tree current of
        None \<Rightarrow> ancestors
      | Some parent \<Rightarrow>
          if current \<notin> seen
          then ancestors_loop phylo_tree parent (insert current seen) (ancestors @ [parent])
          else ancestors)"
  by pat_completeness auto
termination
proof (relation "measure (\<lambda>(phylo_tree, current, seen, ancestors).
                            card (fst ` set phylo_tree - seen))")
  show "wf (measure (\<lambda>(phylo_tree, current, seen, ancestors).
                       card (fst ` set phylo_tree - seen)))"
    by simp
next
  fix phylo_tree :: "(string, string) dict"
  fix current parent :: string and seen :: "string set" and ancestors :: "string list"
  assume look: "map_of phylo_tree current = Some parent" and fresh: "current \<notin> seen"
  from look have "current \<in> fst ` set phylo_tree"
    by (metis map_of_SomeD fst_conv image_eqI)
  with fresh have "fst ` set phylo_tree - insert current seen \<subset> fst ` set phylo_tree - seen"
    by blast
  then have "card (fst ` set phylo_tree - insert current seen)
               < card (fst ` set phylo_tree - seen)"
    by (intro psubset_card_mono) simp_all
  then show "((phylo_tree, parent, insert current seen, ancestors @ [parent]),
              (phylo_tree, current, seen, ancestors))
             \<in> measure (\<lambda>(phylo_tree, current, seen, ancestors).
                           card (fst ` set phylo_tree - seen))"
    by simp
qed

definition get_ancestors :: "(string, string) dict \<Rightarrow> string \<Rightarrow> string list" where
  "get_ancestors phylo_tree node = ancestors_loop phylo_tree node {} []"

definition get_depth :: "(string, string) dict \<Rightarrow> string \<Rightarrow> nat" where
  "get_depth phylo_tree node = length (get_ancestors phylo_tree node)"

text \<open>
  The same loop without the assumption that it ends: a run that never leaves the
  \<open>while\<close> has the value \<open>None\<close>.
\<close>

partial_function (option) ancestors_while ::
  "(string, string) dict \<Rightarrow> string \<Rightarrow> string set \<Rightarrow> string list \<Rightarrow> string list option" where
  "ancestors_while phylo_tree current seen ancestors =
     (case map_of phylo_tree current of
        None \<Rightarrow> Some ancestors
      | Some parent \<Rightarrow>
          if current \<notin> seen
          then ancestors_while phylo_tree parent (insert current seen) (ancestors @ [parent])
          else Some ancestors)"

text \<open>
  \<open>_parse_tree\<close>: the state of the loop over the lines is the parent map
  (\<open>phylo_tree\<close>), the marker lists (\<open>node_snps\<close>) and the path stack of
  (indent, node) pairs, written here with its top first (Python's \<open>path_stack[-1]\<close> is
  the head of the list).
\<close>

type_synonym parse_state =
  "(string, string) dict \<times> (string, string list) dict \<times> (nat \<times> string) list"

text \<open>"Calculate indentation": the number of leading tabs of the line.\<close>

definition count_indent :: "string \<Rightarrow> nat" where
  "count_indent line = length (takeWhile (\<lambda>c. c = TAB) line)"

text \<open>"Extract SNPs" from the pieces of a line.\<close>

definition extract_aliases :: "string \<Rightarrow> string list" where
  "extract_aliases snp_part =
     filter (\<lambda>alias. alias \<noteq> [])
       (map (\<lambda>alias. rstrip_chars ''~^*'' (strip alias)) (split_on (CHR ''/'') snp_part))"

definition extract_snps :: "string list \<Rightarrow> string list" where
  "extract_snps parts =
     (case parts of
        p0 # p1 # rest \<Rightarrow>
          concat (map (\<lambda>snp_part.
                         let snp_part' = strip snp_part
                         in if snp_part' \<noteq> [] \<and> \<not> prefix ''('' snp_part'
                            then extract_aliases snp_part' else [])
                      (split_on (CHR '','') (strip p1)))
      | _ \<Rightarrow> [])"

definition parse_line :: "parse_state \<Rightarrow> string \<Rightarrow> parse_state" where
  "parse_line st line =
     (case st of (phylo_tree, node_snps, path_stack) \<Rightarrow>
        if strip line = [] then st
        else
          let indent = count_indent line;
              content = strip line
          in case split_on TAB content of
               [] \<Rightarrow> st
             | p0 # rest \<Rightarrow>
                 let node_name = strip p0
                 in if node_name \<in> set [''Y'', ''Root'', []]
                       \<or> contains ''see '' (lower node_name)
                    then st
                    else
                      let snps = extract_snps (p0 # rest);
                          node_snps' = dict_set node_name snps node_snps;
                          path_stack' = dropWhile (\<lambda>(i, n). i \<ge> indent) path_stack;
                          phylo_tree' =
                            (case path_stack' of
                               [] \<Rightarrow> phylo_tree
                             | (i, parent) # below \<Rightarrow> dict_set node_name parent phylo_tree)
                      in (phylo_tree', node_snps', (indent, node_name) # path_stack'))"

text \<open>No statement of \<open>_parse_tree\<close> raises: every path returns the two maps.\<close>

definition parse_tree ::
  "string \<Rightarrow> py_exception + ((string, string) dict \<times> (string, string list) dict)" where
  "parse_tree tree_text =
     (case foldl parse_line ([], [], []) (split_on NL (strip tree_text)) of
        (phylo_tree, node_snps, path_stack) \<Rightarrow> Inr (phylo_tree, node_snps))"

text \<open>
  An excerpt of \<open>OFFICIAL_TREE\<close> as the program ships it: its first line, and the two
  consecutive lines of node \<open>F\<close> (marker M89), the second one tab deeper than the first.
\<close>

definition official_tree_F_excerpt :: string where
  "official_tree_F_excerpt =
     ''Y'' @ [TAB] @ ''Root'' @ [NL] @
     replicate 9 TAB @ ''F'' @ [TAB] @ ''M89'' @ [NL] @
     replicate 10 TAB @ ''F'' @ [TAB] @ ''M89''"

section \<open>Marker reference index\<close>

text \<open>
  \<open>int(s)\<close> on an ASCII string: surrounding whitespace, an optional sign, then groups of
  digits separated by single underscores. \<open>None\<close> is the \<open>ValueError\<close> that the source
  catches.
\<close>

definition digit_value :: "char \<Rightarrow> int" where
  "digit_value c = (case map_of (zip ''0123456789'' [0, 1, 2, 3, 4, 5, 6, 7, 8, 9]) c of
                      Some d \<Rightarrow> d | None \<Rightarrow> 0)"

definition py_int_digits :: "string \<Rightarrow> int option" where
  "py_int_digits s =
     (let groups = split_on (CHR ''_'') s
      in if list_all isdigit groups
         then Some (foldl (\<lambda>acc c. 10 * acc + digit_value c) 0 (concat groups))
         else None)"

definition py_int :: "string \<Rightarrow> int option" where
  "py_int s =
     (case strip s of
        [] \<Rightarrow> None
      | c # cs \<Rightarrow>
          if c = CHR ''-'' then map_option uminus (py_int_digits cs)
          else if c = CHR ''+'' then py_int_digits cs
          else py_int_digits (c # cs))"

text \<open>The two indexes that \<open>_load_isogg\<close> fills.\<close>

record isogg_index =
  snp_to_info :: "(string, int \<times> string \<times> string) dict"
  pos_to_haplo :: "(int, (string \<times> string \<times> string \<times> string) list) dict"

text \<open>One data line, as far as the two \<open>continue\<close> checks and the \<open>int\<close> conversion let
  it through: primary name, haplogroup, the raw alias field, position, ref and alt.\<close>

record isogg_row =
  row_snp_name :: string
  row_haplo :: string
  row_aliases :: string
  row_pos :: int
  row_ref :: string
  row_alt :: string

definition parse_mutation :: "string \<Rightarrow> string \<times> string" where
  "parse_mutation mutation =
     (if contains ''->'' mutation then
        (case take 2 (split_arrow mutation) of
           [r, a] \<Rightarrow> (upper (strip r), upper (strip a))
         | _ \<Rightarrow> ([], []))
      else ([], []))"

definition decode_row :: "char \<Rightarrow> string \<Rightarrow> isogg_row option" where
  "decode_row sep line =
     (let parts = split_on sep (strip line)
      in if length parts < 7 then None
         else
           let snp_name = rstrip_chars ''~^*'' (strip (parts ! 0));
               haplo = rstrip_chars ''~^*'' (strip (parts ! 1));
               pos_str = strip (parts ! 4);
               mutation = (if length parts > 6 then strip (parts ! 6) else [])
           in if pos_str = [] \<or> contains ''..'' pos_str then None
              else case py_int pos_str of
                     None \<Rightarrow> None
                   | Some pos \<Rightarrow>
                       (case parse_mutation mutation of
                          (ref, alt) \<Rightarrow>
                            Some \<lparr>row_snp_name = snp_name, row_haplo = haplo,
                                  row_aliases = parts ! 2, row_pos = pos,
                                  row_ref = ref, row_alt = alt\<rparr>))"

text \<open>"Process aliases": an alias is stored only if it is not yet a key.\<close>

definition add_alias ::
  "int \<times> string \<times> string \<Rightarrow> (string, int \<times> string \<times> string) dict \<Rightarrow> string
     \<Rightarrow> (string, int \<times> string \<times> string) dict" where
  "add_alias info s2i alt_name =
     (let alt_name' = rstrip_chars ''~^*'' (strip alt_name)
      in if alt_name' \<noteq> [] \<and> \<not> dict_in alt_name' s2i
         then dict_set alt_name' info s2i else s2i)"

definition add_row :: "isogg_index \<Rightarrow> isogg_row \<Rightarrow> isogg_index" where
  "add_row idx row =
     (let info = (row_pos row, row_ref row, row_alt row);
          s2i = dict_set (row_snp_name row) info (snp_to_info idx);
          p2h = dict_append (row_pos row)
                  (row_haplo row, row_snp_name row, row_ref row, row_alt row)
                  (pos_to_haplo idx)
      in \<lparr>snp_to_info = foldl (add_alias info) s2i (split_on (CHR '';'') (row_aliases row)),
          pos_to_haplo = p2h\<rparr>)"

definition load_line :: "char \<Rightarrow> isogg_index \<Rightarrow> string \<Rightarrow> isogg_index" where
  "load_line sep idx line =
     (case decode_row sep line of
        None \<Rightarrow> idx
      | Some row \<Rightarrow> add_row idx row)"

text \<open>\<open>_load_isogg\<close> on the lines of the file, the header first (an empty file reads an
  empty header), starting from the empty indexes that \<open>__init__\<close> creates.\<close>

definition load_isogg :: "string list \<Rightarrow> isogg_index" where
  "load_isogg file_lines =
     (let header = (case file_lines of [] \<Rightarrow> [] | h # rest \<Rightarrow> h);
          sep = (if contains [TAB] header then TAB else CHR '','')
      in foldl (load_line sep) \<lparr>snp_to_info = [], pos_to_haplo = []\<rparr> (tl file_lines))"

section \<open>The classifier\<close>

text \<open>Class constants of \<open>HaplogroupClassifier\<close>.\<close>

definition MAIN_BRANCHES :: "string list" where
  "MAIN_BRANCHES = [''A'', ''B'', ''C'', ''D'', ''E'', ''G'', ''H'', ''I'', ''J'', ''L'',
                    ''N'', ''O'', ''Q'', ''R'', ''T'']"

definition INTERMEDIATE_NODES :: "string list" where
  "INTERMEDIATE_NODES = [''K'', ''NO'', ''NO1'', ''P'', ''P1'', ''LT'', ''F'', ''CF'', ''DE'',
                         ''CT'', ''BT'', ''GHIJK'', ''HIJK'', ''IJK'', ''IJ'', ''A1b'', ''A1b1'',
                         ''A0-T'', ''A00-T'', ''A000-T'']"

definition MAIN_BRANCH_DEFINING_SNPS :: "(string, string) dict" where
  "MAIN_BRANCH_DEFINING_SNPS =
     [(''A'', ''L1085''), (''B'', ''M60''), (''C'', ''M130''), (''D'', ''M174''),
      (''E'', ''M96''), (''G'', ''M201''), (''H'', ''L901''), (''I'', ''M170''),
      (''J'', ''M304''), (''L'', ''M20''), (''N'', ''M231''), (''O'', ''M175''),
      (''Q'', ''M242''), (''R'', ''M207''), (''T'', ''M184'')]"

definition F_DEFINING_SNP :: string where
  "F_DEFINING_SNP = ''M89''"

text \<open>
  The attributes of a classifier that \<open>classify_sample\<close> reads: the two indexes, the
  heterozygous policy and the parent map. The program builds the parent map from
  \<open>OFFICIAL_TREE\<close> and the indexes from the marker table; here they are any values of
  their types.
\<close>

record classifier = isogg_index +
  het_mode :: string
  phylo_tree :: "(string, string) dict"

text \<open>The sample genotype map: position to (call, observed ref, observed alt).\<close>

type_synonym genotypes = "int \<Rightarrow> (string \<times> string \<times> string) option"

text \<open>One value of \<open>all_node_status\<close>: the dictionary with the keys \<open>derived\<close>,
  \<open>ancestral\<close>, \<open>het\<close> and \<open>missing\<close>.\<close>

record node_status =
  ns_derived :: "string list"
  ns_ancestral :: "string list"
  ns_het :: "string list"
  ns_missing :: "string list"

text \<open>One candidate of \<open>branch_candidates\<close>: the dictionary with the keys \<open>haplo\<close>,
  \<open>n_snps\<close>, \<open>snps\<close> and \<open>depth\<close>.\<close>

record candidate =
  cand_haplo :: string
  cand_n_snps :: nat
  cand_snps :: "string list"
  cand_depth :: nat

text \<open>The \<open>diagnostics\<close> dictionary of a classified sample.\<close>

record diagnostics =
  diag_main_branch_status :: GenotypeStatus
  diag_main_branch_note :: string
  diag_ancestor_conflicts :: "string list"
  diag_total_derived_haplos :: nat
  diag_candidates_in_branch :: nat

text \<open>
  The result dictionary of \<open>_make_result\<close>. The confidence, a Python float, is an exact
  real number here: the decimal constants and the two subtractions of the source are
  taken as written, without binary rounding. The empty \<open>diagnostics\<close> dictionary of the
  early returns is \<open>None\<close>.
\<close>

record classification =
  res_sample :: string
  res_main_branch :: string
  res_haplogroup :: string
  res_n_snps :: nat
  res_confidence :: real
  res_het_count :: nat
  res_evidence :: "string list"
  res_note :: string
  res_diagnostics :: "diagnostics option"

definition make_result ::
  "string \<Rightarrow> string \<Rightarrow> string \<Rightarrow> nat \<Rightarrow> real \<Rightarrow> nat \<Rightarrow> string list \<Rightarrow> string
     \<Rightarrow> diagnostics option \<Rightarrow> classification" where
  "make_result sample main_branch haplo n_snps confidence het_count evidence note diag =
     \<lparr>res_sample = sample, res_main_branch = main_branch, res_haplogroup = haplo,
      res_n_snps = n_snps, res_confidence = confidence, res_het_count = het_count,
      res_evidence = evidence, res_note = note, res_diagnostics = diag\<rparr>"

text \<open>\<open>get_main_branch\<close>: the "Direct match" loop over the main branches.\<close>

fun match_branches :: "string \<Rightarrow> string list \<Rightarrow> string option" where
  "match_branches haplo [] = None"
| "match_branches haplo (branch # branches) =
     (if haplo = branch then Some branch
      else if prefix branch haplo \<and> length haplo > 1 then
        (let next_char = (if length haplo > length branch then [haplo ! length branch] else [])
         in if isdigit next_char \<or> next_char = [] then Some branch
            else match_branches haplo branches)
      else match_branches haplo branches)"

definition get_main_branch :: "string \<Rightarrow> string option" where
  "get_main_branch haplo =
     (if haplo = [] then None
      else case match_branches haplo MAIN_BRANCHES of
             Some branch \<Rightarrow> Some branch
           | None \<Rightarrow>
               if haplo \<in> set INTERMEDIATE_NODES then None
               else (case haplo of
                       [] \<Rightarrow> None
                     | c # cs \<Rightarrow> if [c] \<in> set MAIN_BRANCHES then Some [c] else None))"

subsection \<open>Step 1: collect all derived SNPs and haplogroups\<close>

definition empty_status :: node_status where
  "empty_status = \<lparr>ns_derived = [], ns_ancestral = [], ns_het = [], ns_missing = []\<rparr>"

definition record_status :: "GenotypeStatus \<Rightarrow> string \<Rightarrow> node_status \<Rightarrow> node_status" where
  "record_status status snp_name info =
     (if status = DERIVED then info\<lparr>ns_derived := ns_derived info @ [snp_name]\<rparr>
      else if status = ANCESTRAL then info\<lparr>ns_ancestral := ns_ancestral info @ [snp_name]\<rparr>
      else if status = HETEROZYGOUS then info\<lparr>ns_het := ns_het info @ [snp_name]\<rparr>
      else info)"

text \<open>The body of the inner loop, for one (haplo, snp_name, ref, alt) entry of a
  position. The node's status entry is created when absent, then extended.\<close>

definition collect_entry ::
  "string \<Rightarrow> int \<Rightarrow> string \<times> string \<times> string
     \<Rightarrow> (string, node_status) dict \<times> (string, (string \<times> int) list) dict
     \<Rightarrow> string \<times> string \<times> string \<times> string
     \<Rightarrow> (string, node_status) dict \<times> (string, (string \<times> int) list) dict" where
  "collect_entry mode pos call acc entry =
     (case call of (gt, vcf_ref, vcf_alt) \<Rightarrow>
      case acc of (all_node_status, derived_haplos) \<Rightarrow>
      case entry of (haplo, snp_name, ref, alt) \<Rightarrow>
        let status = check_genotype gt vcf_ref vcf_alt ref alt;
            info = (case map_of all_node_status haplo of
                      None \<Rightarrow> empty_status
                    | Some i \<Rightarrow> i);
            all_node_status' = dict_set haplo (record_status status snp_name info) all_node_status;
            derived_haplos' = (if truthy (is_derived mode (Some status))
                               then dict_append haplo (snp_name, pos) derived_haplos
                               else derived_haplos)
        in (all_node_status', derived_haplos'))"

text \<open>The body of the outer loop, for one item of \<open>pos_to_haplo\<close>.\<close>

definition collect_position ::
  "string \<Rightarrow> genotypes
     \<Rightarrow> nat \<times> (string, node_status) dict \<times> (string, (string \<times> int) list) dict
     \<Rightarrow> int \<times> (string \<times> string \<times> string \<times> string) list
     \<Rightarrow> nat \<times> (string, node_status) dict \<times> (string, (string \<times> int) list) dict" where
  "collect_position mode sample_geno acc item =
     (case acc of (het_count, all_node_status, derived_haplos) \<Rightarrow>
      case item of (pos, entries) \<Rightarrow>
        (case sample_geno pos of
           None \<Rightarrow> acc
         | Some call \<Rightarrow>
             let het_count' = (if is_het_gt (fst call) then het_count + 1 else het_count);
                 collected = foldl (collect_entry mode pos call)
                               (all_node_status, derived_haplos) entries
             in (het_count', fst collected, snd collected)))"

subsection \<open>Step 2: group by main branch\<close>

definition group_candidate ::
  "(string, string) dict \<Rightarrow> (string, candidate list) dict \<Rightarrow> string \<times> (string \<times> int) list
     \<Rightarrow> (string, candidate list) dict" where
  "group_candidate tree branch_candidates item =
     (case item of (haplo, snps) \<Rightarrow>
        (case get_main_branch haplo of
           None \<Rightarrow> branch_candidates
         | Some branch \<Rightarrow>
             if branch \<noteq> [] then
               dict_append branch
                 \<lparr>cand_haplo = haplo, cand_n_snps = length snps,
                  cand_snps = map fst snps, cand_depth = get_depth tree haplo\<rparr>
                 branch_candidates
             else branch_candidates))"

subsection \<open>Step 3: determine the main branch\<close>

text \<open>"Check main branch defining SNPs": the direct status of one branch.\<close>

definition direct_status_of :: "classifier \<Rightarrow> genotypes \<Rightarrow> string \<Rightarrow> GenotypeStatus" where
  "direct_status_of clf sample_geno branch =
     (case map_of MAIN_BRANCH_DEFINING_SNPS branch of
        None \<Rightarrow> MISSING
      | Some snp \<Rightarrow>
          if snp \<noteq> [] then
            (case map_of (snp_to_info clf) snp of
               None \<Rightarrow> MISSING
             | Some (pos, ref, alt) \<Rightarrow>
                 (case sample_geno pos of
                    None \<Rightarrow> MISSING
                  | Some (gt, vcf_ref, vcf_alt) \<Rightarrow> check_genotype gt vcf_ref vcf_alt ref alt))
          else MISSING)"

definition branch_direct_status ::
  "classifier \<Rightarrow> genotypes \<Rightarrow> (string, GenotypeStatus) dict" where
  "branch_direct_status clf sample_geno =
     map (\<lambda>branch. (branch, direct_status_of clf sample_geno branch)) MAIN_BRANCHES"

text \<open>
  "First find those with derived defining SNPs": the first branch whose direct status
  counts as derived and that has candidates. The note indexes
  \<open>MAIN_BRANCH_DEFINING_SNPS\<close> without a guard, which raises \<open>KeyError\<close> on an absent key.
\<close>

fun find_derived_branch ::
  "string \<Rightarrow> (string, GenotypeStatus) dict \<Rightarrow> (string, candidate list) dict \<Rightarrow> string list
     \<Rightarrow> py_exception + (string \<times> string) option" where
  "find_derived_branch mode bds branch_candidates [] = Inr None"
| "find_derived_branch mode bds branch_candidates (branch # branches) =
     (if truthy (is_derived mode (map_of bds branch)) \<and> dict_in branch branch_candidates then
        (case map_of MAIN_BRANCH_DEFINING_SNPS branch of
           None \<Rightarrow> Inl KeyError
         | Some snp \<Rightarrow> Inr (Some (branch, snp @ '' derived'')))
      else find_derived_branch mode bds branch_candidates branches)"

text \<open>\<open>str(n)\<close> for a count, used in the note of an inferred branch.\<close>

function str_nat :: "nat \<Rightarrow> string" where
  "str_nat n =
     (if n < 10 then [''0123456789'' ! n]
      else str_nat (n div 10) @ [''0123456789'' ! (n mod 10)])"
  by pat_completeness auto
termination
  by (relation "measure (\<lambda>n. n)") auto

text \<open>"Select one with most downstream evidence": one item of \<open>branch_candidates\<close>.\<close>

definition most_evidence ::
  "string list \<Rightarrow> string option \<times> nat \<Rightarrow> string \<times> candidate list \<Rightarrow> string option \<times> nat" where
  "most_evidence excluded best item =
     (case best of (best_branch, best_count) \<Rightarrow>
      case item of (branch, candidates) \<Rightarrow>
        if branch \<in> set excluded then best
        else
          let total_snps = sum_list (map cand_n_snps candidates)
          in if total_snps > best_count then (Some branch, total_snps) else best)"

text \<open>Truthiness of a value that is \<open>None\<close> or a string.\<close>

definition truthy_str :: "string option \<Rightarrow> bool" where
  "truthy_str s \<longleftrightarrow> (case s of None \<Rightarrow> False | Some v \<Rightarrow> v \<noteq> [])"

text \<open>"Not found, infer from downstream evidence".\<close>

definition infer_branch ::
  "(string, GenotypeStatus) dict \<Rightarrow> (string, candidate list) dict \<Rightarrow> string option \<times> string" where
  "infer_branch bds branch_candidates =
     (let excluded = map fst (filter (\<lambda>(branch, status). status = ANCESTRAL) bds);
          best = foldl (most_evidence excluded) (None, 0) branch_candidates
      in if truthy_str (fst best)
         then (fst best, ''inferred from '' @ str_nat (snd best) @ '' downstream SNPs'')
         else (None, []))"

text \<open>"Special handling: detect basal F": whether the F marker counts as derived.\<close>

definition basal_F :: "classifier \<Rightarrow> genotypes \<Rightarrow> bool" where
  "basal_F clf sample_geno =
     (case map_of (snp_to_info clf) F_DEFINING_SNP of
        None \<Rightarrow> False
      | Some (f_pos, f_ref, f_alt) \<Rightarrow>
          (case sample_geno f_pos of
             None \<Rightarrow> False
           | Some (gt, vcf_ref, vcf_alt) \<Rightarrow>
               truthy (is_derived (het_mode clf)
                         (Some (check_genotype gt vcf_ref vcf_alt f_ref f_alt)))))"

text \<open>The whole of step 3: the main branch (or \<open>None\<close>), its note, and the candidates,
  to which basal F adds its own.\<close>

definition select_main_branch ::
  "classifier \<Rightarrow> genotypes \<Rightarrow> (string, GenotypeStatus) dict \<Rightarrow> (string, candidate list) dict
     \<Rightarrow> py_exception + (string option \<times> string \<times> (string, candidate list) dict)" where
  "select_main_branch clf sample_geno bds branch_candidates =
     (case find_derived_branch (het_mode clf) bds branch_candidates MAIN_BRANCHES of
        Inl e \<Rightarrow> Inl e
      | Inr found \<Rightarrow>
          let direct = (case found of
                          None \<Rightarrow> (None, [])
                        | Some (branch, note) \<Rightarrow> (Some branch, note));
              inferred = (if \<not> truthy_str (fst direct)
                          then (let i = infer_branch bds branch_candidates
                                in if truthy_str (fst i) then i else direct)
                          else direct)
          in if \<not> truthy_str (fst inferred) then
               (if basal_F clf sample_geno then
                  Inr (Some ''F'', ''basal F (M89 derived, no downstream)'',
                       if \<not> dict_in ''F'' branch_candidates
                       then dict_set ''F''
                              [\<lparr>cand_haplo = ''F'', cand_n_snps = 1,
                                cand_snps = [''M89''], cand_depth = 0\<rparr>]
                              branch_candidates
                       else branch_candidates)
                else Inr (fst inferred, snd inferred, branch_candidates))
             else Inr (fst inferred, snd inferred, branch_candidates))"

subsection \<open>Step 4: subdivide within the main branch\<close>

text \<open>\<open>candidates.sort(key=..., reverse=True)\<close>: Python sorts stably, and with
  \<open>reverse=True\<close> elements of equal key keep their order; it is the stable ascending
  sort of the reversed list, reversed.\<close>

definition sort_candidates :: "candidate list \<Rightarrow> candidate list" where
  "sort_candidates candidates =
     rev (sort_key (\<lambda>x. (cand_depth x, cand_n_snps x)) (rev candidates))"

text \<open>"Only check ancestors within main branch", a loop with a \<open>break\<close>.\<close>

fun relevant_ancestors :: "string \<Rightarrow> string list \<Rightarrow> string list" where
  "relevant_ancestors main_branch [] = []"
| "relevant_ancestors main_branch (anc # ancestors) =
     (if anc = main_branch then []
      else if get_main_branch anc = Some main_branch \<or> anc = main_branch
           then anc # relevant_ancestors main_branch ancestors
           else relevant_ancestors main_branch ancestors)"

text \<open>"Check ancestor chain": the conflicts of one ancestor (none or one).\<close>

definition ancestor_conflict ::
  "string \<Rightarrow> (string, node_status) dict \<Rightarrow> string \<Rightarrow> string list" where
  "ancestor_conflict mode all_node_status anc =
     (case map_of all_node_status anc of
        None \<Rightarrow> []
      | Some anc_info \<Rightarrow>
          let has_derived = length (ns_derived anc_info) > 0;
              has_ancestral = length (ns_ancestral anc_info) > 0;
              has_het = length (ns_het anc_info) > 0
          in if has_ancestral \<and> \<not> has_derived then
               (if has_het \<and> mode \<in> set [''moderate'', ''lenient''] then []
                else [anc @ ''(ancestral)''])
             else [])"

text \<open>The conflicts of one candidate; \<open>chain_valid\<close> is true exactly when the list is
  empty, since the source clears the flag where it appends a conflict.\<close>

definition chain_conflicts ::
  "classifier \<Rightarrow> (string, node_status) dict \<Rightarrow> string \<Rightarrow> candidate \<Rightarrow> string list" where
  "chain_conflicts clf all_node_status main_branch cand =
     concat (map (ancestor_conflict (het_mode clf) all_node_status)
               (relevant_ancestors main_branch (get_ancestors (phylo_tree clf) (cand_haplo cand))))"

text \<open>"Validate ancestor chain for each candidate": the loop that stops at the first
  candidate with a valid chain. The state is (best_haplo, best_n_snps, best_evidence,
  ancestor_conflicts).\<close>

fun validate_candidates ::
  "classifier \<Rightarrow> (string, node_status) dict \<Rightarrow> string
     \<Rightarrow> string \<times> nat \<times> string list \<times> string list \<Rightarrow> candidate list
     \<Rightarrow> string \<times> nat \<times> string list \<times> string list" where
  "validate_candidates clf all_node_status main_branch best [] = best"
| "validate_candidates clf all_node_status main_branch best (cand # candidates) =
     (case best of (best_haplo, best_n_snps, best_evidence, ancestor_conflicts) \<Rightarrow>
        let conflicts = chain_conflicts clf all_node_status main_branch cand
        in if conflicts = []
           then (cand_haplo cand, cand_n_snps cand, take 5 (cand_snps cand), ancestor_conflicts)
           else validate_candidates clf all_node_status main_branch
                  (best_haplo, best_n_snps, best_evidence, ancestor_conflicts @ conflicts)
                  candidates)"

text \<open>"Re-evaluate, select one with fewest conflicts": the count of one candidate, over
  all its ancestors.\<close>

definition conflict_count ::
  "classifier \<Rightarrow> (string, node_status) dict \<Rightarrow> candidate \<Rightarrow> nat" where
  "conflict_count clf all_node_status cand =
     length (filter (\<lambda>anc. case map_of all_node_status anc of
                              None \<Rightarrow> False
                            | Some anc_info \<Rightarrow>
                                ns_ancestral anc_info \<noteq> [] \<and> ns_derived anc_info = [])
               (get_ancestors (phylo_tree clf) (cand_haplo cand)))"

text \<open>The body of that loop; \<open>min_conflicts\<close> starts at \<open>float('inf')\<close>.\<close>

definition fewest_conflicts ::
  "classifier \<Rightarrow> (string, node_status) dict
     \<Rightarrow> enat \<times> string \<times> nat \<times> string list \<Rightarrow> candidate
     \<Rightarrow> enat \<times> string \<times> nat \<times> string list" where
  "fewest_conflicts clf all_node_status best cand =
     (case best of (min_conflicts, best_haplo, best_n_snps, best_evidence) \<Rightarrow>
        if enat (conflict_count clf all_node_status cand) < min_conflicts
        then (enat (conflict_count clf all_node_status cand),
              cand_haplo cand, cand_n_snps cand, take 5 (cand_snps cand))
        else best)"

text \<open>The whole of step 4, on the sorted candidates: (best_haplo, best_n_snps,
  best_evidence, ancestor_conflicts).\<close>

definition subdivide ::
  "classifier \<Rightarrow> (string, node_status) dict \<Rightarrow> string \<Rightarrow> candidate list
     \<Rightarrow> string \<times> nat \<times> string list \<times> string list" where
  "subdivide clf all_node_status main_branch candidates =
     (case validate_candidates clf all_node_status main_branch (main_branch, 0, [], []) candidates of
        (best_haplo, best_n_snps, best_evidence, ancestor_conflicts) \<Rightarrow>
          if best_haplo = main_branch \<and> candidates \<noteq> [] then
            (case foldl (fewest_conflicts clf all_node_status)
                    (\<infinity>, best_haplo, best_n_snps, best_evidence) candidates of
               (min_conflicts, best_haplo', best_n_snps', best_evidence') \<Rightarrow>
                 (best_haplo', best_n_snps', best_evidence', ancestor_conflicts))
          else (best_haplo, best_n_snps, best_evidence, ancestor_conflicts))"

subsection \<open>Step 5: calculate the confidence\<close>

definition base_confidence :: "string \<Rightarrow> GenotypeStatus \<Rightarrow> nat \<Rightarrow> real" where
  "base_confidence mode direct_status best_n_snps =
     (if truthy (is_derived mode (Some direct_status)) then
        (if best_n_snps \<ge> 5 then 0.95
         else if best_n_snps \<ge> 3 then 0.90
         else 0.85)
      else
        (if best_n_snps \<ge> 10 then 0.85
         else if best_n_snps \<ge> 5 then 0.75
         else if best_n_snps \<ge> 3 then 0.65
         else 0.50))"

definition step5_confidence ::
  "string \<Rightarrow> GenotypeStatus \<Rightarrow> nat \<Rightarrow> string list \<Rightarrow> nat \<Rightarrow> real" where
  "step5_confidence mode direct_status best_n_snps ancestor_conflicts het_count =
     (let confidence = base_confidence mode direct_status best_n_snps;
          confidence = (if ancestor_conflicts \<noteq> [] then confidence - 0.15 else confidence);
          confidence = (if het_count > 10 then confidence - 0.05 else confidence)
      in max 0 (min 1 confidence))"

subsection \<open>\<open>classify_sample\<close>\<close>

text \<open>The note of the third early return; its two full-width parentheses are written as
  their UTF-8 bytes.\<close>

definition NOTE_INSUFFICIENT :: string where
  "NOTE_INSUFFICIENT =
     ''Cannot determine main branch'' @ [CHR 0xEF, CHR 0xBC, CHR 0x88]
       @ ''Insufficient or conflicting evidence'' @ [CHR 0xEF, CHR 0xBC, CHR 0x89]"

definition unknown_result :: "string \<Rightarrow> nat \<Rightarrow> string \<Rightarrow> classification" where
  "unknown_result sample het_count note =
     make_result sample ''Unknown'' ''Unknown'' 0 0 het_count [] note None"

text \<open>Steps 4 and 5 and the final \<open>_make_result\<close>, once a main branch is selected.
  \<open>branch_candidates\<close> is a \<open>defaultdict\<close>: an absent key reads as the empty list.\<close>

definition classify_in_branch ::
  "classifier \<Rightarrow> string \<Rightarrow> nat \<Rightarrow> (string, node_status) dict \<Rightarrow> nat
     \<Rightarrow> (string, GenotypeStatus) dict \<Rightarrow> string \<Rightarrow> string \<Rightarrow> (string, candidate list) dict
     \<Rightarrow> classification" where
  "classify_in_branch clf sample het_count all_node_status total_derived_haplos bds
       main_branch main_branch_note branch_candidates =
     (let candidates = sort_candidates
                         (case map_of branch_candidates main_branch of
                            None \<Rightarrow> []
                          | Some cs \<Rightarrow> cs)
      in case subdivide clf all_node_status main_branch candidates of
           (best_haplo, best_n_snps, best_evidence, ancestor_conflicts) \<Rightarrow>
             let direct_status = (case map_of bds main_branch of
                                    None \<Rightarrow> MISSING
                                  | Some s \<Rightarrow> s);
                 confidence = step5_confidence (het_mode clf) direct_status best_n_snps
                                ancestor_conflicts het_count;
                 diag = \<lparr>diag_main_branch_status = direct_status,
                         diag_main_branch_note = main_branch_note,
                         diag_ancestor_conflicts = take 3 ancestor_conflicts,
                         diag_total_derived_haplos = total_derived_haplos,
                         diag_candidates_in_branch = length candidates\<rparr>
             in make_result sample main_branch best_haplo best_n_snps confidence het_count
                  best_evidence [] (Some diag))"

definition classify_sample ::
  "classifier \<Rightarrow> string \<Rightarrow> genotypes \<Rightarrow> py_exception + classification" where
  "classify_sample clf sample sample_geno =
     (case foldl (collect_position (het_mode clf) sample_geno) (0, [], []) (pos_to_haplo clf) of
        (het_count, all_node_status, derived_haplos) \<Rightarrow>
          if derived_haplos = [] then
            Inr (unknown_result sample het_count ''No derived SNPs'')
          else
            let branch_candidates = foldl (group_candidate (phylo_tree clf)) [] derived_haplos
            in if branch_candidates = [] then
                 Inr (unknown_result sample het_count ''Cannot determine main branch'')
               else
                 let bds = branch_direct_status clf sample_geno
                 in case select_main_branch clf sample_geno bds branch_candidates of
                      Inl e \<Rightarrow> Inl e
                    | Inr (main_branch, main_branch_note, branch_candidates') \<Rightarrow>
                        (case main_branch of
                           None \<Rightarrow> Inr (unknown_result sample het_count NOTE_INSUFFICIENT)
                         | Some branch \<Rightarrow>
                             if branch = [] then
                               Inr (unknown_result sample het_count NOTE_INSUFFICIENT)
                             else
                               Inr (classify_in_branch clf sample het_count all_node_status
                                      (length derived_haplos) bds branch main_branch_note
                                      branch_candidates')))"

section \<open>Notions used to state the properties\<close>

text \<open>The \<open>n\<close>-th parent of a node under the parent map, if the chain is that long.\<close>

fun nth_parent :: "(string, string) dict \<Rightarrow> nat \<Rightarrow> string \<Rightarrow> string option" where
  "nth_parent tree 0 node = Some node"
| "nth_parent tree (Suc n) node =
     (case map_of tree node of
        None \<Rightarrow> None
      | Some parent \<Rightarrow> nth_parent tree n parent)"

text \<open>Every node that has a parent, every parent, and every node on the path stack has an
  entry in \<open>node_snps\<close>.\<close>

definition tree_closed :: "parse_state \<Rightarrow> bool" where
  "tree_closed st \<longleftrightarrow>
     (case st of (tree, node_snps, path_stack) \<Rightarrow>
        fst ` set tree \<subseteq> fst ` set node_snps
        \<and> snd ` set tree \<subseteq> fst ` set node_snps
        \<and> snd ` set path_stack \<subseteq> fst ` set node_snps)"

text \<open>The primary marker names (first column) of the data lines that are loaded.\<close>

definition primary_names :: "char \<Rightarrow> string list \<Rightarrow> string list" where
  "primary_names sep file_lines = map row_snp_name (List.map_filter (decode_row sep) file_lines)"

text \<open>A header line of a comma-separated marker table.\<close>

definition isogg_header :: string where
  "isogg_header = ''Name,Haplogroup,Other,rs,pos,b38,Mutation''"


text \<open>
  A concrete classifier. Its parent map is the chain of parent links from \<open>R\<close> upwards
  as \<open>_parse_tree\<close> builds it from \<open>OFFICIAL_TREE\<close> (it ends in the self-loop of \<open>F\<close>);
  its indexes are loaded from a marker table of three data lines, the last one for a
  haplogroup label, \<open>R1c\<close>, that the tree does not have.
\<close>

definition official_R_chain :: "(string, string) dict" where
  "official_R_chain =
     [(''R'', ''P or K2b2''), (''P or K2b2'', ''K2b''), (''K2b'', ''K2''), (''K2'', ''K''),
      (''K'', ''IJK''), (''IJK'', ''HIJK''), (''HIJK'', ''GHIJK''), (''GHIJK'', ''F''),
      (''F'', ''F'')]"

definition example_table :: "string list" where
  "example_table =
     [isogg_header,
      ''M207,R,Page37;UTY2,rs2032658,15581983,13470103,A->G'',
      ''M89,F,PF2746,rs2032652,21917313,19755427,C->T'',
      ''Y9999,R1c,,,7000000,6900000,C->T'']"

definition example_classifier :: classifier where
  "example_classifier =
     \<lparr>snp_to_info = snp_to_info (load_isogg example_table),
      pos_to_haplo = pos_to_haplo (load_isogg example_table),
      het_mode = ''moderate'',
      phylo_tree = official_R_chain\<rparr>"

text \<open>A sample that is derived at M207 and at Y9999 and ancestral at M89.\<close>

definition conflicting_sample :: genotypes where
  "conflicting_sample =
     [15581983 \<mapsto> (''1/1'', ''A'', ''G''),
      21917313 \<mapsto> (''0/0'', ''C'', ''T''),
      7000000 \<mapsto> (''1/1'', ''C'', ''T'')]"

text \<open>A sample whose only call is at a position that the marker table does not list.\<close>

definition unrelated_sample :: genotypes where
  "unrelated_sample = [2655180 \<mapsto> (''1/1'', ''G'', ''A'')]"

text \<open>What \<open>classify_sample\<close> returns for the first sample.\<close>

definition conflicting_result :: classification where
  "conflicting_result =
     \<lparr>res_sample = ''S1'', res_main_branch = ''R'', res_haplogroup = ''R1c'', res_n_snps = 1,
      res_confidence = 0.85, res_het_count = 0, res_evidence = [''Y9999''], res_note = [],
      res_diagnostics =
        Some \<lparr>diag_main_branch_status = DERIVED, diag_main_branch_note = ''M207 derived'',
              diag_ancestor_conflicts = [], diag_total_derived_haplos = 2,
              diag_candidates_in_branch = 2\<rparr>\<rparr>"

section \<open>The tree model\<close>

lemma ancestors_while_loop:
  "ancestors_while t c s a = Some (ancestors_loop t c s a)"
proof (induction t c s a rule: ancestors_loop.induct)
  case (1 t c s a)
  show ?case
    by (subst ancestors_while.simps, subst ancestors_loop.simps) (simp add: 1 split: option.split)
qed

lemma ancestors_loop_length:
  "length (ancestors_loop t c s a) \<le> length a + card (fst ` set t - s)"
proof (induction t c s a rule: ancestors_loop.induct)
  case (1 t c s a)
  show ?case
  proof (cases "map_of t c")
    case None
    then show ?thesis by (subst ancestors_loop.simps) simp
  next
    case (Some p)
    show ?thesis
    proof (cases "c \<in> s")
      case True
      with Some show ?thesis by (subst ancestors_loop.simps) simp
    next
      case False
      from Some have "c \<in> fst ` set t"
        by (metis map_of_SomeD fst_conv image_eqI)
      with False have "fst ` set t - insert c s \<subset> fst ` set t - s" by blast
      then have lt: "card (fst ` set t - insert c s) < card (fst ` set t - s)"
        by (intro psubset_card_mono) simp_all
      from 1 [OF Some False]
      have "length (ancestors_loop t p (insert c s) (a @ [p]))
              \<le> length (a @ [p]) + card (fst ` set t - insert c s)" .
      with lt have "length (ancestors_loop t p (insert c s) (a @ [p]))
              \<le> length a + card (fst ` set t - s)" by simp
      with Some False show ?thesis by (subst ancestors_loop.simps) simp
    qed
  qed
qed

lemma card_keys_le: "card (fst ` set t) \<le> length t"
  by (metis card_image_le card_length le_trans List.finite_set)

text \<open>
  Claim C9. \<open>get_ancestors\<close> terminates for every start node and every child-to-parent
  map, cyclic or not: the \<open>while\<close> loop, run without assuming that it ends, returns the
  list that \<open>get_ancestors\<close> computes, after at most one turn per entry of the map; so
  \<open>get_depth\<close> is total as well.
\<close>

theorem get_ancestors_terminates:
  "ancestors_while tree node {} [] = Some (get_ancestors tree node)
   \<and> get_depth tree node = length (get_ancestors tree node)
   \<and> get_depth tree node \<le> length tree"
proof -
  have "length (get_ancestors tree node) \<le> card (fst ` set tree)"
    using ancestors_loop_length [of tree node "{}" "[]"] by (simp add: get_ancestors_def)
  then show ?thesis
    using card_keys_le [of tree]
    by (simp add: ancestors_while_loop get_ancestors_def get_depth_def)
qed

lemma ancestors_loop_members:
  "x \<in> set (ancestors_loop t c s a) \<Longrightarrow> x \<in> set a \<or> (\<exists>n. nth_parent t (Suc n) c = Some x)"
proof (induction t c s a rule: ancestors_loop.induct)
  case (1 t c s a)
  show ?case
  proof (cases "map_of t c")
    case None
    with "1.prems" show ?thesis by (subst (asm) ancestors_loop.simps) simp
  next
    case (Some p)
    show ?thesis
    proof (cases "c \<in> s")
      case True
      with Some "1.prems" show ?thesis by (subst (asm) ancestors_loop.simps) simp
    next
      case False
      from "1.prems" Some False
      have "x \<in> set (ancestors_loop t p (insert c s) (a @ [p]))"
        by (subst (asm) ancestors_loop.simps) simp
      from "1.IH" [OF Some False this]
      consider "x \<in> set a" | "x = p" | n where "nth_parent t (Suc n) p = Some x"
        by auto
      then show ?thesis
      proof cases
        case 1
        then show ?thesis by simp
      next
        case 2
        with Some have "nth_parent t (Suc 0) c = Some x" by simp
        then show ?thesis by blast
      next
        case 3
        with Some have "nth_parent t (Suc (Suc n)) c = Some x" by simp
        then show ?thesis by blast
      qed
    qed
  qed
qed

text \<open>
  Claim C8, as amended. For every parent map and node, \<open>get_depth\<close> is the length of
  \<open>get_ancestors\<close>; and the list does not contain the node itself whenever the node is
  not its own ancestor, that is, no chain of parent links leads from the node back to it.
\<close>

theorem ancestors_exclude_node:
  assumes "\<forall>n. nth_parent tree (Suc n) node \<noteq> Some node"
  shows "get_depth tree node = length (get_ancestors tree node)
         \<and> node \<notin> set (get_ancestors tree node)"
proof -
  have "node \<notin> set (get_ancestors tree node)"
  proof
    assume "node \<in> set (get_ancestors tree node)"
    then have "\<exists>n. nth_parent tree (Suc n) node = Some node"
      using ancestors_loop_members [of node tree node "{}" "[]"]
      by (simp add: get_ancestors_def)
    with assms show False by blast
  qed
  then show ?thesis by (simp add: get_depth_def)
qed

text \<open>The theorem at a three-node chain R1a, R1, R.\<close>

theorem ancestors_exclude_node_witness:
  "get_depth [(''R1'', ''R''), (''R1a'', ''R1'')] ''R1a''
     = length (get_ancestors [(''R1'', ''R''), (''R1a'', ''R1'')] ''R1a'')
   \<and> ''R1a'' \<notin> set (get_ancestors [(''R1'', ''R''), (''R1a'', ''R1'')] ''R1a'')
   \<and> get_ancestors [(''R1'', ''R''), (''R1a'', ''R1'')] ''R1a'' = [''R1'', ''R'']"
proof -
  have acyclic: "\<forall>n. nth_parent [(''R1'', ''R''), (''R1a'', ''R1'')] (Suc n) ''R1a'' \<noteq> Some ''R1a''"
  proof
    fix n
    show "nth_parent [(''R1'', ''R''), (''R1a'', ''R1'')] (Suc n) ''R1a'' \<noteq> Some ''R1a''"
    proof (cases n)
      case 0
      then show ?thesis by simp
    next
      case (Suc m)
      then show ?thesis by (cases m) simp_all
    qed
  qed
  have "get_ancestors [(''R1'', ''R''), (''R1a'', ''R1'')] ''R1a'' = [''R1'', ''R'']"
    by code_simp
  with ancestors_exclude_node [OF acyclic] show ?thesis by simp
qed

text \<open>
  Claim C8 as stated fails on the tree the program ships: the two consecutive lines of
  \<open>F\<close> make \<open>F\<close> its own parent, and \<open>get_ancestors\<close> of \<open>F\<close> contains \<open>F\<close>.
\<close>

theorem ancestors_contain_node_counterexample:
  "parse_tree official_tree_F_excerpt = Inr ([(''F'', ''F'')], [(''F'', [''M89''])])
   \<and> get_ancestors [(''F'', ''F'')] ''F'' = [''F'']
   \<and> ''F'' \<in> set (get_ancestors [(''F'', ''F'')] ''F'')"
  by code_simp

lemma update_values: "snd ` set (AList.update k v al) \<subseteq> insert v (snd ` set al)"
  by (induction al) auto

lemma dropWhile_subset: "set (dropWhile P xs) \<subseteq> set xs"
  by (induction xs) auto

lemma parse_line_closed:
  assumes "tree_closed st"
  shows "tree_closed (parse_line st line)"
proof -
  obtain tree node_snps path_stack where st: "st = (tree, node_snps, path_stack)"
    by (cases st)
  from assms st have inv:
    "fst ` set tree \<subseteq> fst ` set node_snps"
    "snd ` set tree \<subseteq> fst ` set node_snps"
    "snd ` set path_stack \<subseteq> fst ` set node_snps"
    by (simp_all add: tree_closed_def)
  have step: "tree_closed
       ((case dropWhile (\<lambda>(i, n). i \<ge> indent) path_stack of
           [] \<Rightarrow> tree
         | (i, parent) # below \<Rightarrow> dict_set node_name parent tree),
        dict_set node_name snps node_snps,
        (indent, node_name) # dropWhile (\<lambda>(i, n). i \<ge> indent) path_stack)"
    for indent node_name snps
  proof -
    let ?stack = "dropWhile (\<lambda>(i, n). i \<ge> indent) path_stack"
    have sub: "snd ` set ?stack \<subseteq> fst ` set node_snps"
      using inv(3) dropWhile_subset [of "\<lambda>(i, n). i \<ge> indent" path_stack] by blast
    have keys: "fst ` set (dict_set node_name snps node_snps) = insert node_name (fst ` set node_snps)"
      by (simp add: dict_set_def dom_update)
    show ?thesis
    proof (cases ?stack)
      case Nil
      from inv keys show ?thesis unfolding Nil by (auto simp: tree_closed_def)
    next
      case (Cons top below)
      obtain i parent where top: "top = (i, parent)" by (cases top)
      from Cons top sub have parent: "parent \<in> fst ` set node_snps" by auto
      have k: "fst ` set (dict_set node_name parent tree)
                 \<subseteq> insert node_name (fst ` set node_snps)"
        using inv(1) by (auto simp: dict_set_def dom_update)
      have v: "snd ` set (dict_set node_name parent tree)
                 \<subseteq> insert node_name (fst ` set node_snps)"
      proof -
        have "snd ` set (dict_set node_name parent tree) \<subseteq> insert parent (snd ` set tree)"
          unfolding dict_set_def by (rule update_values)
        also have "\<dots> \<subseteq> fst ` set node_snps" using inv(2) parent by blast
        finally show ?thesis by blast
      qed
      from sub Cons have s: "snd ` set (top # below) \<subseteq> fst ` set node_snps" by simp
      from k v s keys show ?thesis
        unfolding Cons top by (simp add: tree_closed_def) blast
    qed
  qed
  show ?thesis
    unfolding st parse_line_def
    using assms [unfolded st] step
    by (simp add: Let_def split: list.split)
qed

lemma parse_lines_closed:
  "tree_closed st \<Longrightarrow> tree_closed (foldl parse_line st file_lines)"
  by (induction file_lines arbitrary: st) (simp_all add: parse_line_closed)

text \<open>
  Claim C1, as amended. \<open>_parse_tree\<close> has no cycle check and never fails: for every
  tree text, whether or not its node-to-parent relation has a cycle, it returns a parent
  map and a marker map, and every node with a parent and every parent has an entry in the
  marker map.
\<close>

theorem parse_tree_returns:
  "\<exists>tree node_snps.
     parse_tree tree_text = Inr (tree, node_snps)
     \<and> fst ` set tree \<subseteq> fst ` set node_snps
     \<and> snd ` set tree \<subseteq> fst ` set node_snps"
proof -
  have "tree_closed ([], [], [])" by (simp add: tree_closed_def)
  then have c: "tree_closed (foldl parse_line ([], [], []) (split_on NL (strip tree_text)))"
    by (rule parse_lines_closed)
  obtain tree node_snps path_stack
    where r: "foldl parse_line ([], [], []) (split_on NL (strip tree_text))
                = (tree, node_snps, path_stack)"
    by (cases "foldl parse_line ([], [], []) (split_on NL (strip tree_text))")
  with c show ?thesis by (simp add: parse_tree_def tree_closed_def)
qed

text \<open>
  Claim C1 as stated fails: on the excerpt of the shipped tree, whose parent relation has
  the cycle \<open>F\<close>, \<open>F\<close>, construction returns the parent map instead of failing.
\<close>

theorem parse_tree_cycle_counterexample:
  "parse_tree official_tree_F_excerpt = Inr ([(''F'', ''F'')], [(''F'', [''M89''])])
   \<and> parse_tree official_tree_F_excerpt \<noteq> Inl StructuralError
   \<and> map_of [(''F'', ''F'')] ''F'' = Some ''F''"
  by code_simp

section \<open>The marker reference index\<close>

lemma add_alias_keeps:
  "dict_in k s2i \<Longrightarrow> map_of (add_alias info s2i a) k = map_of s2i k"
  by (auto simp: add_alias_def dict_in_def dict_set_def Let_def update_conv')

lemma add_alias_in: "dict_in k s2i \<Longrightarrow> dict_in k (add_alias info s2i a)"
  using add_alias_keeps [of k s2i info a] by (simp add: dict_in_def)

lemma add_aliases_keep:
  "dict_in k s2i \<Longrightarrow> map_of (foldl (add_alias info) s2i as) k = map_of s2i k"
proof (induction as arbitrary: s2i)
  case Nil
  then show ?case by simp
next
  case (Cons a as)
  from Cons.prems have "dict_in k (add_alias info s2i a)" by (rule add_alias_in)
  from Cons.IH [OF this] Cons.prems show ?case by (simp add: add_alias_keeps)
qed

lemma add_row_primary:
  "map_of (snp_to_info (add_row idx row)) (row_snp_name row)
     = Some (row_pos row, row_ref row, row_alt row)"
proof -
  have "dict_in (row_snp_name row)
          (dict_set (row_snp_name row) (row_pos row, row_ref row, row_alt row) (snp_to_info idx))"
    by (simp add: dict_in_def dict_set_def update_conv')
  then show ?thesis
    by (simp add: add_row_def Let_def add_aliases_keep) (simp add: dict_set_def update_conv')
qed

lemma add_row_other:
  assumes "dict_in k (snp_to_info idx)" "k \<noteq> row_snp_name row"
  shows "map_of (snp_to_info (add_row idx row)) k = map_of (snp_to_info idx) k"
proof -
  from assms have "dict_in k
          (dict_set (row_snp_name row) (row_pos row, row_ref row, row_alt row) (snp_to_info idx))"
    by (simp add: dict_in_def dict_set_def update_conv')
  then show ?thesis
    using assms(2) by (simp add: add_row_def Let_def add_aliases_keep) (simp add: dict_set_def update_conv')
qed

lemma load_lines_other:
  "dict_in k (snp_to_info idx) \<Longrightarrow> k \<notin> set (primary_names sep file_lines) \<Longrightarrow>
   map_of (snp_to_info (foldl (load_line sep) idx file_lines)) k = map_of (snp_to_info idx) k"
proof (induction file_lines arbitrary: idx)
  case Nil
  then show ?case by simp
next
  case (Cons line file_lines)
  show ?case
  proof (cases "decode_row sep line")
    case None
    with Cons.prems have "k \<notin> set (primary_names sep file_lines)"
      by (simp add: primary_names_def map_filter_simps)
    from Cons.IH [OF Cons.prems(1) this] None show ?thesis by (simp add: load_line_def)
  next
    case (Some row)
    with Cons.prems have ne: "k \<noteq> row_snp_name row" and rest: "k \<notin> set (primary_names sep file_lines)"
      by (auto simp: primary_names_def map_filter_simps)
    have keep: "map_of (snp_to_info (add_row idx row)) k = map_of (snp_to_info idx) k"
      using Cons.prems(1) ne by (rule add_row_other)
    with Cons.prems(1) have "dict_in k (snp_to_info (add_row idx row))" by (simp add: dict_in_def)
    from Cons.IH [OF this rest] keep Some show ?thesis by (simp add: load_line_def)
  qed
qed

text \<open>
  Claim C3, as amended. First-seen wins for aliases only: an identifier that is already
  in \<open>snp_to_info\<close> keeps its (position, ancestral, derived) tuple through every later
  line that does not carry it as primary name, whatever aliases those lines list; a line
  that carries it as primary name replaces the tuple by its own.
\<close>

theorem alias_first_seen_primary_last:
  "(dict_in k (snp_to_info idx) \<and> k \<notin> set (primary_names sep file_lines)
      \<longrightarrow> map_of (snp_to_info (foldl (load_line sep) idx file_lines)) k = map_of (snp_to_info idx) k)
   \<and> (decode_row sep line = Some row
      \<longrightarrow> map_of (snp_to_info (load_line sep idx line)) (row_snp_name row)
            = Some (row_pos row, row_ref row, row_alt row))"
  using load_lines_other [of k idx sep file_lines] add_row_primary [of idx row]
  by (simp add: load_line_def)

text \<open>
  Claim C3 as stated fails for primary names: a second line for M207 with another
  position and other alleles overwrites the first definition.
\<close>

theorem primary_overwrites_counterexample:
  "map_of (snp_to_info (load_isogg [isogg_header, ''M207,R,Page37;UTY2,,100,,A->G''])) ''M207''
     = Some (100, ''A'', ''G'')
   \<and> map_of (snp_to_info (load_isogg [isogg_header, ''M207,R,Page37;UTY2,,100,,A->G'',
                                        ''M207,R,,,200,,C->T''])) ''M207''
     = Some (200, ''C'', ''T'')"
  by code_simp

text \<open>The theorem on a table where M207 is first a primary name, then an alias of X1,
  then a primary name again.\<close>

theorem alias_first_seen_primary_last_witness:
  "map_of (snp_to_info (foldl (load_line (CHR '','')) (load_isogg [isogg_header, ''M207,R,Page37;UTY2,,100,,A->G''])
                          [''X1,R1,M207;Page37,,300,,C->T''])) ''M207''
     = Some (100, ''A'', ''G'')
   \<and> map_of (snp_to_info (load_line (CHR '','') (load_isogg [isogg_header, ''M207,R,Page37;UTY2,,100,,A->G''])
                          ''M207,R,,,200,,C->T'')) ''M207''
     = Some (200, ''C'', ''T'')"
proof -
  let ?idx = "load_isogg [isogg_header, ''M207,R,Page37;UTY2,,100,,A->G'']"
  let ?row = "\<lparr>row_snp_name = ''M207'', row_haplo = ''R'', row_aliases = [], row_pos = 200,
               row_ref = ''C'', row_alt = ''T''\<rparr>"
  have h1: "dict_in ''M207'' (snp_to_info ?idx)" by code_simp
  have h2: "''M207'' \<notin> set (primary_names (CHR '','') [''X1,R1,M207;Page37,,300,,C->T''])"
    by code_simp
  have h3: "decode_row (CHR '','') ''M207,R,,,200,,C->T'' = Some ?row" by code_simp
  have h4: "map_of (snp_to_info ?idx) ''M207'' = Some (100, ''A'', ''G'')" by code_simp
  from alias_first_seen_primary_last [of "''M207''" ?idx "CHR '',''" "[''X1,R1,M207;Page37,,300,,C->T'']"
        "''M207,R,,,200,,C->T''" ?row] h1 h2 h3 h4
  show ?thesis by simp
qed

section \<open>The genotype resolver\<close>

text \<open>
  Claim C7. Orientation symmetry: with expected ancestral A and derived G,
  \<open>check_genotype\<close> returns Derived for every homozygous-alt call with observed ref A and
  alt G, and for every homozygous-ref call with observed ref G and alt A.
\<close>

theorem check_genotype_orientation_symmetry:
  "check_genotype ''1/1'' ''A'' ''G'' ''A'' ''G'' = DERIVED \<and>
   check_genotype ''1|1'' ''A'' ''G'' ''A'' ''G'' = DERIVED \<and>
   check_genotype ''1'' ''A'' ''G'' ''A'' ''G'' = DERIVED \<and>
   check_genotype ''0/0'' ''G'' ''A'' ''A'' ''G'' = DERIVED \<and>
   check_genotype ''0|0'' ''G'' ''A'' ''A'' ''G'' = DERIVED \<and>
   check_genotype ''0'' ''G'' ''A'' ''A'' ''G'' = DERIVED"
  by (simp add: check_genotype_def upper_def upper_char_def ascii_lowercase_def
      ascii_uppercase_def is_hom_alt_gt_def is_hom_ref_gt_def is_het_gt_def)

text \<open>
  Claim C10. The resolver of the generated classifier and the resolver of the base
  classifier return the same status on every input.
\<close>

theorem check_genotype_same_in_both_files:
  "check_genotype gt vcf_ref vcf_alt exp_ref exp_alt
     = pro_check_genotype gt vcf_ref vcf_alt exp_ref exp_alt"
  unfolding check_genotype_def pro_check_genotype_def by (rule refl)

section \<open>The classification engine\<close>

lemma collect_skip:
  "\<forall>item \<in> set items. sample_geno (fst item) = None \<Longrightarrow>
   foldl (collect_position mode sample_geno) acc items = acc"
  by (induction items arbitrary: acc) (auto simp: collect_position_def split: prod.splits)

lemma defining_snp_present:
  "b \<in> set MAIN_BRANCHES \<Longrightarrow> map_of MAIN_BRANCH_DEFINING_SNPS b \<noteq> None"
  by (auto simp: MAIN_BRANCHES_def MAIN_BRANCH_DEFINING_SNPS_def)


lemma find_derived_branch_returns:
  "set bs \<subseteq> set MAIN_BRANCHES \<Longrightarrow> \<exists>r. find_derived_branch mode bds bc bs = Inr r"
proof (induction bs)
  case Nil
  then show ?case by simp
next
  case (Cons b bs)
  then have "map_of MAIN_BRANCH_DEFINING_SNPS b \<noteq> None"
    by (simp add: defining_snp_present)
  with Cons show ?case by auto
qed

lemma select_main_branch_returns:
  "\<exists>r. select_main_branch clf sample_geno bds bc = Inr r"
proof -
  obtain found where "find_derived_branch (het_mode clf) bds bc MAIN_BRANCHES = Inr found"
    using find_derived_branch_returns [of MAIN_BRANCHES] by blast
  then show ?thesis
    by (simp add: select_main_branch_def Let_def)
qed

lemma classify_sample_shape:
  "\<exists>r. classify_sample clf sample sample_geno = Inr r
       \<and> ((\<exists>het_count note. r = unknown_result sample het_count note)
          \<or> (\<exists>het_count ans n_haplos branch note bc.
                r = classify_in_branch clf sample het_count ans n_haplos
                      (branch_direct_status clf sample_geno) branch note bc))"
proof -
  obtain het_count ans dh where
    c: "foldl (collect_position (het_mode clf) sample_geno) (0, [], []) (pos_to_haplo clf)
          = (het_count, ans, dh)"
    by (cases "foldl (collect_position (het_mode clf) sample_geno) (0, [], []) (pos_to_haplo clf)")
  obtain mb msg bc where
    s: "select_main_branch clf sample_geno (branch_direct_status clf sample_geno)
          (foldl (group_candidate (phylo_tree clf)) [] dh) = Inr (mb, msg, bc)"
    using select_main_branch_returns
      [of clf sample_geno "branch_direct_status clf sample_geno"
          "foldl (group_candidate (phylo_tree clf)) [] dh"]
    by (metis prod_cases3)
  let ?bc = "foldl (group_candidate (phylo_tree clf)) [] dh"
  show ?thesis
  proof (cases "dh = [] \<or> ?bc = [] \<or> mb = None \<or> mb = Some []")
    case True
    then have "\<exists>msg'. classify_sample clf sample sample_geno
                 = Inr (unknown_result sample het_count msg')"
      unfolding classify_sample_def c by (auto simp: s Let_def)
    then show ?thesis by blast
  next
    case False
    then obtain branch where "mb = Some branch" "branch \<noteq> []" by (cases mb) auto
    with False have "classify_sample clf sample sample_geno
                 = Inr (classify_in_branch clf sample het_count ans (length dh)
                          (branch_direct_status clf sample_geno) branch msg bc)"
      unfolding classify_sample_def c by (simp add: s Let_def)
    then show ?thesis by blast
  qed
qed

lemma step5_confidence_range:
  "0 \<le> step5_confidence mode st n cs h \<and> step5_confidence mode st n cs h \<le> 1"
  by (simp add: step5_confidence_def Let_def)



lemma classify_in_branch_fields:
  "\<exists>bh bn be ac.
     classify_in_branch clf sample het_count ans n_haplos bds branch msg bc
       = make_result sample branch bh bn
           (step5_confidence (het_mode clf)
              (case map_of bds branch of None \<Rightarrow> MISSING | Some s \<Rightarrow> s) bn ac het_count)
           het_count be []
           (Some \<lparr>diag_main_branch_status =
                      (case map_of bds branch of None \<Rightarrow> MISSING | Some s \<Rightarrow> s),
                   diag_main_branch_note = msg,
                   diag_ancestor_conflicts = take 3 ac,
                   diag_total_derived_haplos = n_haplos,
                   diag_candidates_in_branch =
                     length (sort_candidates
                               (case map_of bc branch of None \<Rightarrow> [] | Some cs \<Rightarrow> cs))\<rparr>)"
proof -
  obtain bh bn be ac where
    "subdivide clf ans branch
       (sort_candidates (case map_of bc branch of None \<Rightarrow> [] | Some cs \<Rightarrow> cs))
     = (bh, bn, be, ac)"
    by (metis prod_cases4)
  then have "classify_in_branch clf sample het_count ans n_haplos bds branch msg bc
       = make_result sample branch bh bn
           (step5_confidence (het_mode clf)
              (case map_of bds branch of None \<Rightarrow> MISSING | Some s \<Rightarrow> s) bn ac het_count)
           het_count be []
           (Some \<lparr>diag_main_branch_status =
                      (case map_of bds branch of None \<Rightarrow> MISSING | Some s \<Rightarrow> s),
                   diag_main_branch_note = msg,
                   diag_ancestor_conflicts = take 3 ac,
                   diag_total_derived_haplos = n_haplos,
                   diag_candidates_in_branch =
                     length (sort_candidates
                               (case map_of bc branch of None \<Rightarrow> [] | Some cs \<Rightarrow> cs))\<rparr>)"
    by (simp add: classify_in_branch_def Let_def)
  then show ?thesis by blast
qed


lemma example_index:
  "pos_to_haplo example_classifier =
     [(15581983, [(''R'', ''M207'', ''A'', ''G'')]),
      (21917313, [(''F'', ''M89'', ''C'', ''T'')]),
      (7000000, [(''R1c'', ''Y9999'', ''C'', ''T'')])]"
  by code_simp

lemma example_classification:
  "classify_sample example_classifier ''S1'' conflicting_sample = Inr conflicting_result"
  by code_simp

text \<open>
  Claim C4. \<open>classify_sample\<close> never raises: for every classifier state, sample name and
  genotype map it returns a result record, for the sample it was given, whose confidence
  lies between 0 and 1. The one unguarded dictionary access of the method, the defining
  marker in the branch note, always finds its key.
\<close>

theorem classify_sample_never_raises:
  "\<exists>r. classify_sample clf sample sample_geno = Inr r
       \<and> res_sample r = sample
       \<and> 0 \<le> res_confidence r \<and> res_confidence r \<le> 1"
proof -
  obtain r where r: "classify_sample clf sample sample_geno = Inr r"
    and shape: "(\<exists>het_count note. r = unknown_result sample het_count note)
          \<or> (\<exists>het_count ans n_haplos branch note bc.
                r = classify_in_branch clf sample het_count ans n_haplos
                      (branch_direct_status clf sample_geno) branch note bc)"
    using classify_sample_shape by blast
  from shape have "res_sample r = sample \<and> 0 \<le> res_confidence r \<and> res_confidence r \<le> 1"
  proof
    assume "\<exists>het_count note. r = unknown_result sample het_count note"
    then show ?thesis by (auto simp: unknown_result_def make_result_def)
  next
    assume "\<exists>het_count ans n_haplos branch note bc.
                r = classify_in_branch clf sample het_count ans n_haplos
                      (branch_direct_status clf sample_geno) branch note bc"
    then obtain het_count ans n_haplos branch msg bc where
      "r = classify_in_branch clf sample het_count ans n_haplos
             (branch_direct_status clf sample_geno) branch msg bc"
      by blast
    with classify_in_branch_fields
      [of clf sample het_count ans n_haplos "branch_direct_status clf sample_geno" branch msg bc]
    show ?thesis
      using step5_confidence_range by (auto simp: make_result_def)
  qed
  with r show ?thesis by blast
qed

text \<open>
  Claim C5. A sample whose genotype map shares no position with \<open>pos_to_haplo\<close> is
  classified with main branch and haplogroup Unknown and confidence 0.
\<close>

theorem no_overlap_unknown:
  assumes "dom sample_geno \<inter> fst ` set (pos_to_haplo clf) = {}"
  shows "\<exists>r. classify_sample clf sample sample_geno = Inr r
             \<and> res_main_branch r = ''Unknown'' \<and> res_haplogroup r = ''Unknown''
             \<and> res_confidence r = 0"
proof -
  have "\<forall>item \<in> set (pos_to_haplo clf). sample_geno (fst item) = None"
  proof
    fix item
    assume "item \<in> set (pos_to_haplo clf)"
    then have "fst item \<in> fst ` set (pos_to_haplo clf)" by (rule imageI)
    with assms have "fst item \<notin> dom sample_geno" by blast
    then show "sample_geno (fst item) = None" using domIff by fastforce
  qed
  then have "foldl (collect_position (het_mode clf) sample_geno) (0, [], []) (pos_to_haplo clf)
               = (0, [], [])"
    by (rule collect_skip)
  then show ?thesis
    by (simp add: classify_sample_def unknown_result_def make_result_def)
qed

text \<open>The theorem at the example classifier and the sample with one unlisted position.\<close>

theorem no_overlap_unknown_witness:
  "dom unrelated_sample \<inter> fst ` set (pos_to_haplo example_classifier) = {}
   \<and> (\<exists>r. classify_sample example_classifier ''S2'' unrelated_sample = Inr r
            \<and> res_main_branch r = ''Unknown'' \<and> res_haplogroup r = ''Unknown''
            \<and> res_confidence r = 0)"
proof -
  have disjoint: "dom unrelated_sample \<inter> fst ` set (pos_to_haplo example_classifier) = {}"
    by (simp add: example_index unrelated_sample_def)
  from no_overlap_unknown [OF disjoint, of "''S2''"] disjoint show ?thesis by blast
qed



text \<open>
  Claim C2, evaluated where the code departs from it. For the example classifier and
  the first sample, the candidates of main branch R in sorted order are R (depth 9) and
  R1c (depth 0); the checked ancestor chain of R, the first candidate, has no conflict;
  yet the result is R1c. The first loop does select R, but R is also the initial value
  of \<open>best_haplo\<close>, so the test \<open>best_haplo == main_branch\<close> takes the selection for none
  and the fewest-conflicts loop replaces it.
\<close>

theorem first_valid_candidate_replaced:
  "(case foldl (collect_position ''moderate'' conflicting_sample) (0, [], [])
                (pos_to_haplo example_classifier) of
       (het_count, all_node_status, derived_haplos) \<Rightarrow>
         (case sort_candidates
                 (case map_of (foldl (group_candidate official_R_chain) [] derived_haplos) ''R'' of
                    None \<Rightarrow> [] | Some cs \<Rightarrow> cs) of
            [] \<Rightarrow> False
          | first # others \<Rightarrow>
              cand_haplo first = ''R'' \<and> cand_depth first = 9 \<and>
              map cand_haplo others = [''R1c''] \<and> map cand_depth others = [0] \<and>
              chain_conflicts example_classifier all_node_status ''R'' first = []))
   \<and> classify_sample example_classifier ''S1'' conflicting_sample = Inr conflicting_result
   \<and> res_haplogroup conflicting_result = ''R1c''"
proof -
  have sorted_first: "(case foldl (collect_position ''moderate'' conflicting_sample) (0, [], [])
                (pos_to_haplo example_classifier) of
       (het_count, all_node_status, derived_haplos) \<Rightarrow>
         (case sort_candidates
                 (case map_of (foldl (group_candidate official_R_chain) [] derived_haplos) ''R'' of
                    None \<Rightarrow> [] | Some cs \<Rightarrow> cs) of
            [] \<Rightarrow> False
          | first # others \<Rightarrow>
              cand_haplo first = ''R'' \<and> cand_depth first = 9 \<and>
              map cand_haplo others = [''R1c''] \<and> map cand_depth others = [0] \<and>
              chain_conflicts example_classifier all_node_status ''R'' first = []))"
    by code_simp
  have "res_haplogroup conflicting_result = ''R1c''"
    by (simp add: conflicting_result_def)
  with sorted_first example_classification show ?thesis by blast
qed

end
